theory Spec2Isabelle
  imports Main
begin

section \<open>The DB2 handler: data model\<close>

text \<open>
  The handler of \<^verbatim>\<open>db2_handler.py\<close> is glue around the vendor driver \<^verbatim>\<open>ibm_db_dbi\<close>.
  The driver is not part of the module, so it is a parameter of the model: a record of
  functions that say, for each driver call, whether it raises or what it returns. Each
  function also receives the calls made so far, so a driver may answer differently
  over time. Every handler method is a function from the state before the call to a
  result (an exception, \<open>Inl\<close>, or a return value, \<open>Inr\<close>) and the state after it.
\<close>

subsection \<open>Exceptions\<close>

text \<open>
  \<open>ValueError\<close> is raised by the handler itself, \<open>AttributeError\<close> by Python when a
  method is looked up on \<^verbatim>\<open>None\<close>, \<open>DriverError\<close> stands for the exceptions of the
  driver (\<^verbatim>\<open>ibm_db_dbi.OperationalError\<close> and its siblings). Each carries the text
  that Python's \<^verbatim>\<open>str(e)\<close> gives for it, which \<open>str\<close> reads.
\<close>

datatype exn = ValueError string | AttributeError string | DriverError string

fun str :: "exn \<Rightarrow> string" where
  "str (ValueError m) = m"
| "str (AttributeError m) = m"
| "str (DriverError m) = m"

subsection \<open>Driver\<close>

type_synonym conn = nat
type_synonym cur = nat

text \<open>
  A Python \<^verbatim>\<open>str\<close> whose characters matter one by one, the SQL text, is the list of
  its Unicode code points. \<open>ascii\<close> reads an ASCII literal as such a list.
\<close>

type_synonym py_str = "nat list"

definition ascii :: "string \<Rightarrow> py_str" where
  "ascii lit = map of_char lit"

datatype db_value = IntV int | StrV string | NullV

type_synonym row = "db_value list"

text \<open>An entry of \<^verbatim>\<open>cursor.description\<close>: the column name (element 0) and the other elements.\<close>

type_synonym col_desc = "string \<times> db_value list"

datatype call =
    PConnect string
  | Cursor conn
  | Execute cur py_str
  | FetchAll cur
  | Commit conn
  | Rollback conn
  | Close conn
  | CursorExit cur

text \<open>
  What the cursor object holds once \<^verbatim>\<open>execute\<close> has returned: the attribute
  \<^verbatim>\<open>_result_set_produced\<close>, what \<^verbatim>\<open>fetchall()\<close> gives and what evaluating
  \<^verbatim>\<open>[x[0] for x in cur.description]\<close> finds in \<^verbatim>\<open>description\<close>; either of the two
  may raise instead (a description that is \<^verbatim>\<open>None\<close> raises in the comprehension).
\<close>

record cursor_state =
  result_set_produced :: bool
  fetchall :: "exn + row list"
  description :: "exn + col_desc list"

record driver =
  drv_pconnect :: "call list \<Rightarrow> string \<Rightarrow> exn + conn"
  drv_cursor :: "call list \<Rightarrow> conn \<Rightarrow> exn + cur"
  drv_execute :: "call list \<Rightarrow> cur \<Rightarrow> py_str \<Rightarrow> exn + cursor_state"
  drv_commit :: "call list \<Rightarrow> conn \<Rightarrow> exn + unit"
  drv_rollback :: "call list \<Rightarrow> conn \<Rightarrow> exn + unit"
  drv_close :: "call list \<Rightarrow> conn \<Rightarrow> exn + unit"
  drv_cursor_exit :: "call list \<Rightarrow> cur \<Rightarrow> exn + unit"

subsection \<open>Handler state and responses\<close>

text \<open>
  The three attributes of \<^verbatim>\<open>DB2Handler\<close> that the methods read and write, and the
  log of the driver calls made so far. The values of \<open>connection_data\<close> are kept as
  the text an f-string renders them to. Calls of \<^verbatim>\<open>logger.error\<close> only write to the
  application log and are left out.
\<close>

record state =
  connection_data :: "string \<rightharpoonup> string"
  connection :: "conn option"
  is_connected :: bool
  calls :: "call list"

text \<open>The attributes as \<^verbatim>\<open>__init__\<close> sets them; no driver call has been made yet.\<close>

definition init :: "(string \<rightharpoonup> string) \<Rightarrow> state" where
  "init cd = \<lparr>connection_data = cd, connection = None, is_connected = False, calls = []\<rparr>"

record status_response =
  success :: bool
  error_message :: "string option"

datatype RESPONSE_TYPE = TABLE | OK | ERROR

record data_frame_rec =
  columns :: "string list"
  rows :: "row list"

record response =
  resp_type :: RESPONSE_TYPE
  data_frame :: "data_frame_rec option"
  resp_error_message :: "string option"

section \<open>The handler's methods\<close>

subsection \<open>connect\<close>

definition required_keys :: "string list" where
  "required_keys = [''host'', ''user'', ''password'', ''database'']"

text \<open>
  The f-string of \<^verbatim>\<open>connect\<close> and the two optional suffixes. It is evaluated only
  after the check of the required keys, so the four lookups find a value.
\<close>

definition connection_string :: "(string \<rightharpoonup> string) \<Rightarrow> string" where
  "connection_string cd =
     (''DRIVER=IBM DB2 ODBC DRIVER;DATABASE='' @ the (cd ''database'')
        @ '';HOST='' @ the (cd ''host'')
        @ '';PROTOCOL=TCPIP;UID='' @ the (cd ''user'')
        @ '';PWD='' @ the (cd ''password'') @ '';'')
     @ (case cd ''port'' of None \<Rightarrow> [] | Some p \<Rightarrow> ''PORT='' @ p @ '';'')
     @ (case cd ''schema'' of None \<Rightarrow> [] | Some s \<Rightarrow> ''CURRENTSCHEMA='' @ s @ '';'')"

text \<open>
  \<^verbatim>\<open>connect\<close> returns the connection, raises \<open>ValueError\<close>, or, when \<^verbatim>\<open>pconnect\<close>
  raises, logs the exception and falls off the end of the function: it returns
  \<^verbatim>\<open>None\<close> and leaves the attributes as they were.
\<close>

definition connect :: "driver \<Rightarrow> state \<Rightarrow> (exn + conn option) \<times> state" where
  "connect D s =
     (if is_connected s then (Inr (connection s), s)
      else if \<not> list_all (\<lambda>key. connection_data s key \<noteq> None) required_keys
      then (Inl (ValueError
              ''Required parameters (host, user, password, database) must be provided.''), s)
      else
        (let cs = connection_string (connection_data s) in
         case drv_pconnect D (calls s) cs of
           Inr c \<Rightarrow> (Inr (Some c),
                     s\<lparr>connection := Some c, is_connected := True,
                       calls := calls s @ [PConnect cs]\<rparr>)
         | Inl e \<Rightarrow> (Inr None, s\<lparr>calls := calls s @ [PConnect cs]\<rparr>)))"

subsection \<open>disconnect\<close>

text \<open>The message of the \<open>AttributeError\<close> that a method call on \<^verbatim>\<open>None\<close> raises.\<close>

definition none_has_no_attribute :: "string \<Rightarrow> exn" where
  "none_has_no_attribute name =
     AttributeError ([CHR 0x27] @ ''NoneType'' @ [CHR 0x27] @ '' object has no attribute ''
                       @ [CHR 0x27] @ name @ [CHR 0x27])"

definition disconnect :: "driver \<Rightarrow> state \<Rightarrow> (exn + unit) \<times> state" where
  "disconnect D s =
     (if \<not> is_connected s then (Inr (), s)
      else
        (case connection s of
           None \<Rightarrow> (Inl (none_has_no_attribute ''close''), s)
         | Some c \<Rightarrow>
             (case drv_close D (calls s) c of
                Inl e \<Rightarrow> (Inl e, s\<lparr>calls := calls s @ [Close c]\<rparr>)
              | Inr _ \<Rightarrow> (Inr (), s\<lparr>is_connected := False, calls := calls s @ [Close c]\<rparr>))))"

subsection \<open>check\_connection\<close>

text \<open>
  The \<^verbatim>\<open>try\<close> sets \<open>success\<close> when \<^verbatim>\<open>connect\<close> returns, whatever it returns, and
  stores the message when it raises. The \<^verbatim>\<open>finally\<close> block runs its two \<^verbatim>\<open>if\<close>s in
  order; an exception of \<^verbatim>\<open>disconnect\<close> leaves the method from there.
\<close>

definition check_connection :: "driver \<Rightarrow> state \<Rightarrow> (exn + status_response) \<times> state" where
  "check_connection D s =
     (let responseCode = \<lparr>success = False, error_message = None\<rparr>;
          need_to_close = \<not> is_connected s;
          (responseCode, s1) =
             (case connect D s of
                (Inr _, s') \<Rightarrow> (responseCode\<lparr>success := True\<rparr>, s')
              | (Inl e, s') \<Rightarrow> (responseCode\<lparr>error_message := Some (str e)\<rparr>, s'))
      in case (if success responseCode \<and> need_to_close then disconnect D s1
               else (Inr (), s1)) of
           (Inl e, s2) \<Rightarrow> (Inl e, s2)
         | (Inr _, s2) \<Rightarrow>
             (Inr responseCode,
              if \<not> success responseCode \<and> is_connected s2
              then s2\<lparr>is_connected := False\<rparr> else s2))"

subsection \<open>native\_query\<close>

text \<open>
  \<^verbatim>\<open>str.upper\<close> sends every code point of the text through Unicode's upper-case
  mapping, which gives one to three code points for each (\<^verbatim>\<open>U+00DF\<close> becomes
  \<^verbatim>\<open>SS\<close>), and joins the results in order. The mapping is a table of the
  interpreter, not of this module: it is the parameter \<open>uc\<close>.
\<close>

definition upper :: "(nat \<Rightarrow> nat list) \<Rightarrow> py_str \<Rightarrow> py_str" where
  "upper uc q = concat (map uc q)"

text \<open>
  \<^verbatim>\<open>pd.DataFrame(result, columns=...)\<close>: the frame of the given rows under the given
  column names. pandas raises \<open>ValueError\<close> when the width of the data is not the
  number of names; rows of uneven width, which a cursor does not return, are counted
  as rejected too.
\<close>

definition pd_DataFrame :: "row list \<Rightarrow> string list \<Rightarrow> exn + data_frame_rec" where
  "pd_DataFrame result cols =
     (if list_all (\<lambda>r. length r = length cols) result
      then Inr \<lparr>columns = cols, rows = result\<rparr>
      else Inl (ValueError ''Shape of passed values does not match the columns''))"

text \<open>The driver calls of \<^verbatim>\<open>native_query\<close>, each one logged whether it raises or not.\<close>

definition call_cursor :: "driver \<Rightarrow> state \<Rightarrow> conn option \<Rightarrow> (exn + cur) \<times> state" where
  "call_cursor D s conn =
     (case conn of
        None \<Rightarrow> (Inl (none_has_no_attribute ''cursor''), s)
      | Some c \<Rightarrow> (drv_cursor D (calls s) c, s\<lparr>calls := calls s @ [Cursor c]\<rparr>))"

definition call_execute :: "driver \<Rightarrow> state \<Rightarrow> cur \<Rightarrow> py_str \<Rightarrow> (exn + cursor_state) \<times> state" where
  "call_execute D s cu query =
     (drv_execute D (calls s) cu query, s\<lparr>calls := calls s @ [Execute cu query]\<rparr>)"

definition call_fetchall :: "cursor_state \<Rightarrow> state \<Rightarrow> cur \<Rightarrow> (exn + row list) \<times> state" where
  "call_fetchall cs s cu = (fetchall cs, s\<lparr>calls := calls s @ [FetchAll cu]\<rparr>)"

definition call_commit :: "driver \<Rightarrow> state \<Rightarrow> (exn + unit) \<times> state" where
  "call_commit D s =
     (case connection s of
        None \<Rightarrow> (Inl (none_has_no_attribute ''commit''), s)
      | Some c \<Rightarrow> (drv_commit D (calls s) c, s\<lparr>calls := calls s @ [Commit c]\<rparr>))"

definition call_rollback :: "driver \<Rightarrow> state \<Rightarrow> (exn + unit) \<times> state" where
  "call_rollback D s =
     (case connection s of
        None \<Rightarrow> (Inl (none_has_no_attribute ''rollback''), s)
      | Some c \<Rightarrow> (drv_rollback D (calls s) c, s\<lparr>calls := calls s @ [Rollback c]\<rparr>))"

definition call_cursor_exit :: "driver \<Rightarrow> state \<Rightarrow> cur \<Rightarrow> (exn + unit) \<times> state" where
  "call_cursor_exit D s cu =
     (drv_cursor_exit D (calls s) cu, s\<lparr>calls := calls s @ [CursorExit cu]\<rparr>)"

text \<open>
  The body of the \<^verbatim>\<open>try\<close>: \<open>Inl e\<close> is the exception that reaches the \<^verbatim>\<open>except\<close>
  clause. \<^verbatim>\<open>commit\<close> is called on \<^verbatim>\<open>self.connection\<close>, inside the \<^verbatim>\<open>try\<close>.
\<close>

definition try_body :: "driver \<Rightarrow> state \<Rightarrow> cur \<Rightarrow> py_str \<Rightarrow> (exn + response) \<times> state" where
  "try_body D s cu query =
     (case call_execute D s cu query of
        (Inl e, s1) \<Rightarrow> (Inl e, s1)
      | (Inr cs, s1) \<Rightarrow>
          (case (if result_set_produced cs then
                   (case call_fetchall cs s1 cu of
                      (Inl e, s2) \<Rightarrow> (Inl e, s2)
                    | (Inr result, s2) \<Rightarrow>
                        (case description cs of
                           Inl e \<Rightarrow> (Inl e, s2)
                         | Inr d \<Rightarrow>
                             (case pd_DataFrame result (map fst d) of
                                Inl e \<Rightarrow> (Inl e, s2)
                              | Inr df \<Rightarrow>
                                  (Inr \<lparr>resp_type = TABLE, data_frame = Some df,
                                        resp_error_message = None\<rparr>, s2))))
                 else (Inr \<lparr>resp_type = OK, data_frame = None,
                             resp_error_message = None\<rparr>, s1)) of
             (Inl e, s3) \<Rightarrow> (Inl e, s3)
           | (Inr response, s3) \<Rightarrow>
               (case call_commit D s3 of
                  (Inl e, s4) \<Rightarrow> (Inl e, s4)
                | (Inr _, s4) \<Rightarrow> (Inr response, s4))))"

text \<open>\<^verbatim>\<open>Response(RESPONSE_TYPE.ERROR, error_message=str(e))\<close> of the \<^verbatim>\<open>except\<close> clause.\<close>

definition error_response :: "exn \<Rightarrow> response" where
  "error_response e =
     \<lparr>resp_type = ERROR, data_frame = None, resp_error_message = Some (str e)\<rparr>"

text \<open>
  The \<^verbatim>\<open>with\<close> block: the \<^verbatim>\<open>try\<close> with its \<^verbatim>\<open>except\<close> clause, then the cursor's
  \<^verbatim>\<open>__exit__\<close>, which runs on every way out of the block. An exception of
  \<^verbatim>\<open>rollback\<close> leaves the block; one of \<^verbatim>\<open>__exit__\<close> replaces whatever was on its
  way.
\<close>

definition with_cursor :: "driver \<Rightarrow> state \<Rightarrow> cur \<Rightarrow> py_str \<Rightarrow> (exn + response) \<times> state" where
  "with_cursor D s cu query =
     (case (case try_body D s cu query of
              (Inr response, s1) \<Rightarrow> (Inr response, s1)
            | (Inl e, s1) \<Rightarrow>
                (case call_rollback D s1 of
                   (Inl e', s2) \<Rightarrow> (Inl e', s2)
                 | (Inr _, s2) \<Rightarrow> (Inr (error_response e), s2))) of
        (res, s3) \<Rightarrow>
          (case call_cursor_exit D s3 cu of
             (Inl e, s4) \<Rightarrow> (Inl e, s4)
           | (Inr _, s4) \<Rightarrow> (res, s4)))"

definition native_query ::
  "(nat \<Rightarrow> nat list) \<Rightarrow> driver \<Rightarrow> state \<Rightarrow> py_str \<Rightarrow> (exn + response) \<times> state" where
  "native_query uc D s query0 =
     (let need_to_close = \<not> is_connected s;
          query = upper uc query0
      in case connect D s of
           (Inl e, s1) \<Rightarrow> (Inl e, s1)
         | (Inr conn, s1) \<Rightarrow>
             (case call_cursor D s1 conn of
                (Inl e, s2) \<Rightarrow> (Inl e, s2)
              | (Inr cu, s2) \<Rightarrow>
                  (case with_cursor D s2 cu query of
                     (Inl e, s3) \<Rightarrow> (Inl e, s3)
                   | (Inr response, s3) \<Rightarrow>
                       (if need_to_close then
                          (case disconnect D s3 of
                             (Inl e, s4) \<Rightarrow> (Inl e, s4)
                           | (Inr _, s4) \<Rightarrow> (Inr response, s4))
                        else (Inr response, s3)))))"

subsection \<open>query\<close>

text \<open>
  \<^verbatim>\<open>SqlalchemyRender(DB2Dialect).get_string(query, with_failback=True)\<close> is a call
  into another package: the renderer is a parameter, and it may raise.
\<close>

definition query ::
  "('ast \<Rightarrow> exn + py_str) \<Rightarrow> (nat \<Rightarrow> nat list) \<Rightarrow> driver \<Rightarrow> state \<Rightarrow> 'ast
     \<Rightarrow> (exn + response) \<times> state" where
  "query get_string uc D s q =
     (case get_string q of
        Inl e \<Rightarrow> (Inl e, s)
      | Inr query_str \<Rightarrow> native_query uc D s query_str)"

subsection \<open>Observing the driver calls of one method call\<close>

text \<open>The driver calls made between an earlier state and a later one.\<close>

definition new_calls :: "state \<Rightarrow> state \<Rightarrow> call list" where
  "new_calls s s' = drop (length (calls s)) (calls s')"

fun is_commit :: "call \<Rightarrow> bool" where
  "is_commit (Commit _) = True"
| "is_commit _ = False"



section \<open>Example configurations and drivers\<close>

definition example_config :: "string \<rightharpoonup> string" where
  "example_config =
     [''host'' \<mapsto> ''db2.example.com'', ''user'' \<mapsto> ''db2inst1'',
      ''password'' \<mapsto> ''secret'', ''database'' \<mapsto> ''SAMPLE'']"

definition partial_config :: "string \<rightharpoonup> string" where
  "partial_config = [''host'' \<mapsto> ''db2.example.com'', ''user'' \<mapsto> ''db2inst1'']"

definition example_connection_string :: string where
  "example_connection_string =
     ''DRIVER=IBM DB2 ODBC DRIVER;DATABASE=SAMPLE;HOST=db2.example.com;PROTOCOL=TCPIP;UID=db2inst1;PWD=secret;''"

text \<open>The handler once \<^verbatim>\<open>connect\<close> has opened connection 1 with \<open>example_config\<close>.\<close>

definition connected_state :: state where
  "connected_state =
     \<lparr>connection_data = example_config, connection = Some 1, is_connected = True,
      calls = [PConnect example_connection_string]\<rparr>"

text \<open>
  A driver on which every call returns: connection 1, cursor 7, a two-column result set
  for a statement that starts with \<open>SELECT\<close> and none for any other.
\<close>

definition accepting_driver :: driver where
  "accepting_driver =
     \<lparr>drv_pconnect = (\<lambda>_ _. Inr 1),
      drv_cursor = (\<lambda>_ _. Inr 7),
      drv_execute = (\<lambda>_ _ stmt.
         Inr (if take 6 stmt = ascii ''SELECT''
              then \<lparr>result_set_produced = True,
                    fetchall = Inr [ [IntV 1, StrV ''ADA''], [IntV 2, StrV ''BOB''] ],
                    description = Inr [(''ID'', []), (''NAME'', [])]\<rparr>
              else \<lparr>result_set_produced = False,
                    fetchall = Inl (DriverError ''No result set''),
                    description = Inr []\<rparr>)),
      drv_commit = (\<lambda>_ _. Inr ()),
      drv_rollback = (\<lambda>_ _. Inr ()),
      drv_close = (\<lambda>_ _. Inr ()),
      drv_cursor_exit = (\<lambda>_ _. Inr ())\<rparr>"

text \<open>A driver that cannot reach the server: \<^verbatim>\<open>pconnect\<close> raises.\<close>

definition refusing_driver :: driver where
  "refusing_driver =
     accepting_driver\<lparr>drv_pconnect :=
       (\<lambda>_ _. Inl (DriverError ''SQL30081N  A communication error has been detected.''))\<rparr>"




text \<open>
  Unicode's upper-case mapping on the code points below 256: the letters \<^verbatim>\<open>a\<close> to
  \<^verbatim>\<open>z\<close> and \<^verbatim>\<open>U+00E0\<close> to \<^verbatim>\<open>U+00FE\<close> (the division sign \<^verbatim>\<open>U+00F7\<close> apart) move
  32 down, the micro sign goes to \<^verbatim>\<open>U+039C\<close>, the sharp s to \<^verbatim>\<open>SS\<close>, \<^verbatim>\<open>U+00FF\<close> to
  \<^verbatim>\<open>U+0178\<close>. The examples stay below 256, so the table is cut off there.
\<close>

definition latin1_upper :: "nat \<Rightarrow> nat list" where
  "latin1_upper c =
     (if 0x61 \<le> c \<and> c \<le> 0x7A then [c - 32]
      else if c = 0xB5 then [0x39C]
      else if c = 0xDF then [0x53, 0x53]
      else if 0xE0 \<le> c \<and> c \<le> 0xFE \<and> c \<noteq> 0xF7 then [c - 32]
      else if c = 0xFF then [0x178]
      else [c])"




text \<open>A renderer for a one-constructor query node, to run \<^verbatim>\<open>query\<close> on.\<close>

datatype example_ast = SelectAll string

definition example_get_string :: "example_ast \<Rightarrow> exn + py_str" where
  "example_get_string q = (case q of SelectAll tab \<Rightarrow> Inr (ascii (''SELECT * FROM '' @ tab)))"

section \<open>Auxiliary facts\<close>

lemma example_connection_string_eq:
  "connection_string example_config = example_connection_string"
  by (simp add: connection_string_def example_config_def example_connection_string_def)

lemma connect_example:
  "connect accepting_driver (init example_config) = (Inr (Some 1), connected_state)"
  by (simp add: connect_def init_def required_keys_def accepting_driver_def
        connected_state_def example_connection_string_eq)
     (simp add: example_config_def)


lemma upper_alphabet:
  "upper latin1_upper (ascii ''abcdefghijklmnopqrstuvwxyz'') = ascii ''ABCDEFGHIJKLMNOPQRSTUVWXYZ''"
  "upper latin1_upper (ascii ''ABCDEFGHIJKLMNOPQRSTUVWXYZ 0123456789 _%*(),.;=<>'') =
     ascii ''ABCDEFGHIJKLMNOPQRSTUVWXYZ 0123456789 _%*(),.;=<>''"
  by code_simp+

lemma upper_sharp_s:
  "upper latin1_upper (ascii ''stra'' @ [0xDF] @ ascii ''e'') = ascii ''STRASSE''"
  by code_simp

lemma upper_select:
  "upper latin1_upper (ascii ''select id, name from t'') = ascii ''SELECT ID, NAME FROM T''"
  by code_simp

lemma upper_delete: "upper latin1_upper (ascii ''delete from t'') = ascii ''DELETE FROM T''"
  by code_simp




lemma connect_Some:
  "connect D s = (Inr (Some c), s1) \<Longrightarrow>
     connection s1 = Some c \<and> is_connected s1 \<and>
     (if is_connected s then s1 = s
      else calls s1 = calls s @ [PConnect (connection_string (connection_data s))])"
  by (auto simp: connect_def Let_def split: if_splits sum.splits)


lemma disconnect_returns: "disconnect D s = (Inr u, s') \<Longrightarrow> \<not> is_connected s'"
  by (auto simp: disconnect_def split: if_splits sum.splits option.splits)

lemma call_cursor_flag:
  "call_cursor D s conn = (r, s') \<Longrightarrow> is_connected s' = is_connected s"
  by (auto simp: call_cursor_def split: option.splits)

lemma try_body_flag: "try_body D s cu q = (r, s') \<Longrightarrow> is_connected s' = is_connected s"
  by (auto simp: try_body_def call_execute_def call_fetchall_def call_commit_def
           split: if_splits sum.splits option.splits prod.splits)

lemma with_cursor_flag: "with_cursor D s cu q = (r, s') \<Longrightarrow> is_connected s' = is_connected s"
  unfolding with_cursor_def
  by (auto simp: call_rollback_def call_cursor_exit_def dest!: try_body_flag
           split: if_splits sum.splits option.splits prod.splits)

text \<open>\<^verbatim>\<open>native_query\<close> once the connection and the cursor are there.\<close>

lemma native_query_connected:
  assumes "connect D s = (Inr (Some c), s1)" and "drv_cursor D (calls s1) c = Inr cu"
  shows "native_query uc D s q =
     (case with_cursor D (s1\<lparr>calls := calls s1 @ [Cursor c]\<rparr>) cu (upper uc q) of
        (Inl e, s3) \<Rightarrow> (Inl e, s3)
      | (Inr response, s3) \<Rightarrow>
          (if \<not> is_connected s then
             (case disconnect D s3 of
                (Inl e, s4) \<Rightarrow> (Inl e, s4)
              | (Inr _, s4) \<Rightarrow> (Inr response, s4))
           else (Inr response, s3)))"
  using assms by (simp add: native_query_def call_cursor_def)



section \<open>Connecting and disconnecting\<close>

text \<open>
  Claim C1. \<^verbatim>\<open>check_connection\<close> is to report success exactly when the connection
  attempt succeeds, and a failure status with the driver's message when the driver
  raises. The code does not: \<^verbatim>\<open>connect\<close> catches the exception of \<^verbatim>\<open>pconnect\<close>,
  logs it and returns \<^verbatim>\<open>None\<close>, so the \<^verbatim>\<open>try\<close> of \<^verbatim>\<open>check_connection\<close> runs to its
  end. With a complete configuration and a driver whose \<^verbatim>\<open>pconnect\<close> raises, the
  status returned has \<open>success = True\<close> and no error message, and no connection exists.
\<close>

theorem check_connection_success_on_driver_error:
  "check_connection refusing_driver (init example_config) =
     (Inr \<lparr>success = True, error_message = None\<rparr>,
      \<lparr>connection_data = example_config, connection = None, is_connected = False,
       calls = [PConnect example_connection_string]\<rparr>)"
  by (simp add: check_connection_def connect_def disconnect_def init_def required_keys_def
        refusing_driver_def accepting_driver_def example_connection_string_eq)
     (simp add: example_config_def)

text \<open>
  Claim C2. When the handler is not connected and one of the keys \<open>host\<close>, \<open>user\<close>,
  \<open>password\<close>, \<open>database\<close> is missing from \<open>connection_data\<close>, \<^verbatim>\<open>connect\<close> raises
  \<open>ValueError\<close> and the state after the call is the state before it: the attributes
  are unchanged and no driver call has been logged, so no connection string reached
  the driver.
\<close>

theorem connect_missing_key_raises:
  "\<not> is_connected s \<Longrightarrow> key \<in> set required_keys \<Longrightarrow> connection_data s key = None \<Longrightarrow>
   connect D s =
     (Inl (ValueError
        ''Required parameters (host, user, password, database) must be provided.''), s)"
  by (auto simp: connect_def list_all_iff)

theorem connect_missing_key_raises_witness:
  "\<not> is_connected (init partial_config) \<and> ''password'' \<in> set required_keys \<and>
   connection_data (init partial_config) ''password'' = None \<and>
   connect accepting_driver (init partial_config) =
     (Inl (ValueError
        ''Required parameters (host, user, password, database) must be provided.''),
      init partial_config)"
proof -
  have h1: "\<not> is_connected (init partial_config)"
    by (simp add: init_def)
  have h2: "''password'' \<in> set required_keys"
    by (simp add: required_keys_def)
  have h3: "connection_data (init partial_config) ''password'' = None"
    by (simp add: init_def partial_config_def)
  from connect_missing_key_raises [OF h1 h2 h3, of accepting_driver] h1 h2 h3
  show ?thesis by blast
qed






section \<open>Running SQL\<close>






text \<open>
  Claim C5. Let \<^verbatim>\<open>connect\<close> give connection \<open>c\<close>, the driver cursor \<open>cu\<close>, and let
  \<^verbatim>\<open>execute\<close> return with \<^verbatim>\<open>_result_set_produced\<close> set. A response of
  \<^verbatim>\<open>native_query\<close> that is not an error response is then a \<open>TABLE\<close> response whose
  frame has as column names the first elements of the entries of the cursor's
  \<^verbatim>\<open>description\<close>, in order, and as rows the rows that \<^verbatim>\<open>fetchall\<close> returned.
\<close>

theorem native_query_table_response:
  assumes conn: "connect D s = (Inr (Some c), s1)"
    and cur: "drv_cursor D (calls s1) c = Inr cu"
    and exec: "drv_execute D (calls s1 @ [Cursor c]) cu (upper uc q) = Inr cs"
    and rs: "result_set_produced cs"
    and run: "native_query uc D s q = (Inr r, s')"
    and ok: "resp_type r \<noteq> ERROR"
  shows "\<exists>result d df.
           fetchall cs = Inr result \<and> description cs = Inr d \<and>
           r = \<lparr>resp_type = TABLE, data_frame = Some df, resp_error_message = None\<rparr> \<and>
           columns df = map fst d \<and> rows df = result \<and>
           length (rows df) = length result"
proof -
  from connect_Some [OF conn] have c1: "connection s1 = Some c" by simp
  show ?thesis
    using run ok rs exec c1 unfolding native_query_connected [OF conn cur]
    by (auto simp: with_cursor_def try_body_def call_execute_def call_fetchall_def
          call_commit_def call_rollback_def call_cursor_exit_def pd_DataFrame_def
          disconnect_def error_response_def
          split: sum.splits if_splits prod.splits option.splits)
qed

theorem native_query_table_response_witness:
  "connect accepting_driver (init example_config) = (Inr (Some 1), connected_state) \<and>
   drv_cursor accepting_driver (calls connected_state) 1 = Inr 7 \<and>
   drv_execute accepting_driver (calls connected_state @ [Cursor 1]) 7
       (upper latin1_upper (ascii ''select id, name from t''))
     = Inr \<lparr>result_set_produced = True,
            fetchall = Inr [ [IntV 1, StrV ''ADA''], [IntV 2, StrV ''BOB''] ],
            description = Inr [(''ID'', []), (''NAME'', [])]\<rparr> \<and>
   fst (native_query latin1_upper accepting_driver (init example_config) (ascii ''select id, name from t''))
     = Inr \<lparr>resp_type = TABLE,
            data_frame = Some \<lparr>columns = [''ID'', ''NAME''],
                               rows = [ [IntV 1, StrV ''ADA''], [IntV 2, StrV ''BOB''] ]\<rparr>,
            resp_error_message = None\<rparr> \<and>
   (\<exists>df. data_frame \<lparr>resp_type = TABLE,
            data_frame = Some \<lparr>columns = [''ID'', ''NAME''],
                               rows = [ [IntV 1, StrV ''ADA''], [IntV 2, StrV ''BOB''] ]\<rparr>,
            resp_error_message = None\<rparr> = Some df \<and>
         columns df = map fst [(''ID'', [] :: db_value list), (''NAME'', [])] \<and>
         rows df = [ [IntV 1, StrV ''ADA''], [IntV 2, StrV ''BOB''] ] \<and>
         length (rows df) = 2)"
proof -
  let ?cs = "\<lparr>result_set_produced = True,
            fetchall = Inr [ [IntV 1, StrV ''ADA''], [IntV 2, StrV ''BOB''] ],
            description = Inr [(''ID'', []), (''NAME'', [])]\<rparr>"
  let ?r = "\<lparr>resp_type = TABLE,
            data_frame = Some \<lparr>columns = [''ID'', ''NAME''],
                               rows = [ [IntV 1, StrV ''ADA''], [IntV 2, StrV ''BOB''] ]\<rparr>,
            resp_error_message = None\<rparr>"
  have h2: "drv_cursor accepting_driver (calls connected_state) 1 = Inr 7"
    by (simp add: accepting_driver_def)
  have h3: "drv_execute accepting_driver (calls connected_state @ [Cursor 1]) 7
       (upper latin1_upper (ascii ''select id, name from t'')) = Inr ?cs"
    by code_simp
  have h4: "result_set_produced ?cs"
    by simp
  have h5: "fst (native_query latin1_upper accepting_driver (init example_config)
                  (ascii ''select id, name from t'')) = Inr ?r"
    by code_simp
  have h6: "native_query latin1_upper accepting_driver (init example_config) (ascii ''select id, name from t'')
     = (Inr ?r, snd (native_query latin1_upper accepting_driver (init example_config)
                       (ascii ''select id, name from t'')))"
    using h5 by (simp add: prod_eq_iff)
  have h7: "resp_type ?r \<noteq> ERROR"
    by simp
  from native_query_table_response [OF connect_example h2 h3 h4 h6 h7]
  have "\<exists>df. data_frame ?r = Some df \<and>
         columns df = map fst [(''ID'', [] :: db_value list), (''NAME'', [])] \<and>
         rows df = [ [IntV 1, StrV ''ADA''], [IntV 2, StrV ''BOB''] ] \<and>
         length (rows df) = 2"
    by auto
  with connect_example h2 h3 h5 show ?thesis by blast
qed

text \<open>
  Claim C6. Let \<^verbatim>\<open>connect\<close> give connection \<open>c\<close>, the driver cursor \<open>cu\<close>, and let
  \<^verbatim>\<open>execute\<close> return with \<^verbatim>\<open>_result_set_produced\<close> not set. A response of
  \<^verbatim>\<open>native_query\<close> that is not an error response is then the \<open>OK\<close> response, with no
  data frame; the driver calls after \<^verbatim>\<open>connect\<close> are the cursor, the \<^verbatim>\<open>execute\<close>, one
  \<^verbatim>\<open>commit\<close> on \<open>c\<close>, the cursor's exit and, on a handler that was disconnected, the
  \<^verbatim>\<open>close\<close>; the whole call makes exactly one \<^verbatim>\<open>commit\<close>.
\<close>

theorem native_query_ok_response:
  assumes conn: "connect D s = (Inr (Some c), s1)"
    and cur: "drv_cursor D (calls s1) c = Inr cu"
    and exec: "drv_execute D (calls s1 @ [Cursor c]) cu (upper uc q) = Inr cs"
    and rs: "\<not> result_set_produced cs"
    and run: "native_query uc D s q = (Inr r, s')"
    and ok: "resp_type r \<noteq> ERROR"
  shows "r = \<lparr>resp_type = OK, data_frame = None, resp_error_message = None\<rparr> \<and>
         new_calls s1 s' =
           [Cursor c, Execute cu (upper uc q), Commit c, CursorExit cu]
             @ (if is_connected s then [] else [Close c]) \<and>
         length (filter is_commit (new_calls s s')) = 1"
proof -
  from connect_Some [OF conn]
  have c1: "connection s1 = Some c" and i1: "is_connected s1"
    and k1: "if is_connected s then s1 = s
             else calls s1 = calls s @ [PConnect (connection_string (connection_data s))]"
    by simp_all
  show ?thesis
    using run ok rs exec c1 i1 k1 unfolding native_query_connected [OF conn cur]
    by (auto simp: with_cursor_def try_body_def call_execute_def call_fetchall_def
          call_commit_def call_rollback_def call_cursor_exit_def pd_DataFrame_def
          disconnect_def new_calls_def error_response_def
          split: sum.splits if_splits prod.splits option.splits)
qed

theorem native_query_ok_response_witness:
  "connect accepting_driver (init example_config) = (Inr (Some 1), connected_state) \<and>
   drv_cursor accepting_driver (calls connected_state) 1 = Inr 7 \<and>
   drv_execute accepting_driver (calls connected_state @ [Cursor 1]) 7
       (upper latin1_upper (ascii ''delete from t''))
     = Inr \<lparr>result_set_produced = False, fetchall = Inl (DriverError ''No result set''),
            description = Inr []\<rparr> \<and>
   fst (native_query latin1_upper accepting_driver (init example_config) (ascii ''delete from t''))
     = Inr \<lparr>resp_type = OK, data_frame = None, resp_error_message = None\<rparr> \<and>
   new_calls connected_state
       (snd (native_query latin1_upper accepting_driver (init example_config) (ascii ''delete from t'')))
     = [Cursor 1, Execute 7 (ascii ''DELETE FROM T''), Commit 1, CursorExit 7, Close 1] \<and>
   length (filter is_commit
       (new_calls (init example_config)
          (snd (native_query latin1_upper accepting_driver (init example_config) (ascii ''delete from t''))))) = 1"
proof -
  let ?cs = "\<lparr>result_set_produced = False, fetchall = Inl (DriverError ''No result set''),
            description = Inr []\<rparr>"
  let ?r = "\<lparr>resp_type = OK, data_frame = None, resp_error_message = None\<rparr>"
  have h0: "\<not> is_connected (init example_config)"
    by (simp add: init_def)
  have h2: "drv_cursor accepting_driver (calls connected_state) 1 = Inr 7"
    by (simp add: accepting_driver_def)
  have h3: "drv_execute accepting_driver (calls connected_state @ [Cursor 1]) 7
       (upper latin1_upper (ascii ''delete from t'')) = Inr ?cs"
    by code_simp
  have h4: "\<not> result_set_produced ?cs"
    by simp
  have h5: "fst (native_query latin1_upper accepting_driver (init example_config) (ascii ''delete from t''))
              = Inr ?r"
    by code_simp
  have h6: "native_query latin1_upper accepting_driver (init example_config) (ascii ''delete from t'')
     = (Inr ?r, snd (native_query latin1_upper accepting_driver (init example_config) (ascii ''delete from t'')))"
    using h5 by (simp add: prod_eq_iff)
  have h7: "resp_type ?r \<noteq> ERROR"
    by simp
  note t = native_query_ok_response [OF connect_example h2 h3 h4 h6 h7]
  from t h0 have a: "new_calls connected_state
       (snd (native_query latin1_upper accepting_driver (init example_config) (ascii ''delete from t'')))
     = [Cursor 1, Execute 7 (upper latin1_upper (ascii ''delete from t'')), Commit 1, CursorExit 7, Close 1]"
    by simp
  then have a': "new_calls connected_state
       (snd (native_query latin1_upper accepting_driver (init example_config) (ascii ''delete from t'')))
     = [Cursor 1, Execute 7 (ascii ''DELETE FROM T''), Commit 1, CursorExit 7, Close 1]"
    by (simp only: upper_delete)
  from t have b: "length (filter is_commit
       (new_calls (init example_config)
          (snd (native_query latin1_upper accepting_driver (init example_config) (ascii ''delete from t''))))) = 1"
    by blast
  from connect_example h2 h3 h5 a' b show ?thesis by blast
qed

text \<open>
  Claim C8. When \<^verbatim>\<open>native_query\<close> returns a response, \<open>is_connected\<close> is what it was
  before the call: false on a handler that was disconnected, true on one that was
  connected.
\<close>

theorem native_query_restores_connection_state:
  "native_query uc D s q = (Inr r, s') \<Longrightarrow> is_connected s' = is_connected s"
  unfolding native_query_def Let_def
  by (auto split: prod.splits sum.splits if_splits
           dest!: with_cursor_flag call_cursor_flag disconnect_returns
           simp: connect_def)

theorem native_query_restores_connection_state_witness:
  "fst (native_query latin1_upper accepting_driver (init example_config) (ascii ''delete from t''))
     = Inr \<lparr>resp_type = OK, data_frame = None, resp_error_message = None\<rparr> \<and>
   \<not> is_connected (init example_config) \<and>
   \<not> is_connected (snd (native_query latin1_upper accepting_driver (init example_config)
                          (ascii ''delete from t''))) \<and>
   fst (native_query latin1_upper accepting_driver connected_state (ascii ''delete from t''))
     = Inr \<lparr>resp_type = OK, data_frame = None, resp_error_message = None\<rparr> \<and>
   is_connected connected_state \<and>
   is_connected (snd (native_query latin1_upper accepting_driver connected_state (ascii ''delete from t'')))"
proof -
  let ?r = "\<lparr>resp_type = OK, data_frame = None, resp_error_message = None\<rparr>"
  have h0: "\<not> is_connected (init example_config)" "is_connected connected_state"
    by (simp_all add: init_def connected_state_def)
  have h1: "fst (native_query latin1_upper accepting_driver (init example_config) (ascii ''delete from t''))
              = Inr ?r"
    by code_simp
  have h2: "native_query latin1_upper accepting_driver (init example_config) (ascii ''delete from t'')
     = (Inr ?r, snd (native_query latin1_upper accepting_driver (init example_config) (ascii ''delete from t'')))"
    using h1 by (simp add: prod_eq_iff)
  have h3: "fst (native_query latin1_upper accepting_driver connected_state (ascii ''delete from t'')) = Inr ?r"
    by code_simp
  have h4: "native_query latin1_upper accepting_driver connected_state (ascii ''delete from t'')
     = (Inr ?r, snd (native_query latin1_upper accepting_driver connected_state (ascii ''delete from t'')))"
    using h3 by (simp add: prod_eq_iff)
  from native_query_restores_connection_state [OF h2]
       native_query_restores_connection_state [OF h4] h0 h1 h3
  show ?thesis by simp
qed

text \<open>
  Claim C10. When the renderer returns the SQL text of the query node, \<^verbatim>\<open>query\<close>
  returns what \<^verbatim>\<open>native_query\<close> returns on that text, response and state after the
  call alike: it makes no driver call of its own.
\<close>

theorem query_delegates_to_native_query:
  "get_string q = Inr query_str \<Longrightarrow>
   query get_string uc D s q = native_query uc D s query_str"
  by (simp add: query_def)

theorem query_delegates_to_native_query_witness:
  "example_get_string (SelectAll ''t'') = Inr (ascii ''SELECT * FROM t'') \<and>
   query example_get_string latin1_upper accepting_driver (init example_config)
       (SelectAll ''t'')
     = native_query latin1_upper accepting_driver (init example_config)
         (ascii ''SELECT * FROM t'')"
proof -
  have h: "example_get_string (SelectAll ''t'') = Inr (ascii ''SELECT * FROM t'')"
    by (simp add: example_get_string_def)
  from query_delegates_to_native_query [of example_get_string "SelectAll ''t''"
         "ascii ''SELECT * FROM t''" latin1_upper accepting_driver "init example_config",
         OF h] h
  show ?thesis by blast
qed

end
